theory Spec2Isabelle
  imports Main "HOL-Library.Word"
begin

unbundle bit_operations_syntax

section \<open>KICKR telemetry decoding (kickr_gears.py)\<close>

text \<open>
  The two decoders of \<^verbatim>\<open>kickr_gears.py\<close>: \<^verbatim>\<open>decode_gears\<close> (gear pair) and
  \<^verbatim>\<open>calc_grade\<close> (grade and lock status, kept in two module-level globals).
  A notification payload is a \<^verbatim>\<open>bytearray\<close>: a list of bytes. Python integers are
  unbounded, so every value read from the payload is widened to \<open>int\<close> before arithmetic.
\<close>

type_synonym byte = "8 word"

subsection \<open>Python primitives used by the decoders\<close>

text \<open>Indexing a \<^verbatim>\<open>bytearray\<close> with a non-negative literal raises IndexError out of range.\<close>

datatype error = IndexError

definition getitem :: "byte list \<Rightarrow> nat \<Rightarrow> error + byte" where
  "getitem data i = (if i < length data then Inr (data ! i) else Inl IndexError)"

text \<open>\<^verbatim>\<open>str\<close> of an integer, as an f-string field \<^verbatim>\<open>{front}\<close> renders it.\<close>

definition digit_char :: "nat \<Rightarrow> char" where
  "digit_char d = ''0123456789'' ! d"

function str_nat :: "nat \<Rightarrow> string" where
  "str_nat n = (if n < 10 then [digit_char n] else str_nat (n div 10) @ [digit_char (n mod 10)])"
  by pat_completeness auto
termination
  by (relation "measure (\<lambda>n. n)") auto

declare str_nat.simps [simp del]

definition str_int :: "int \<Rightarrow> string" where
  "str_int i = (if i < 0 then ''-'' @ str_nat (nat (- i)) else str_nat (nat i))"

text \<open>
  A finite binary64 value: \<open>Float64 s m k\<close> stands for \<open>(-1)^s * m / 2^k\<close>.

  \<^verbatim>\<open>n / 100.0\<close> on an integer \<open>n\<close> converts \<open>n\<close> to a float (exactly, for
  \<open>\<bar>n\<bar> < 2^53\<close>) and divides in IEEE 754 binary64, rounding the exact quotient to the
  nearest value with a 53-bit significand, ties to even. \<open>norm_shift\<close> finds the scale
  at which the significand has 53 bits; \<open>round_half_even a b\<close> is \<open>a / b\<close> rounded
  to the nearest integer, ties to even.

  \<^verbatim>\<open>f"{x:.1f}"\<close> prints the decimal with one fractional digit nearest to the exact
  value of the float, ties to even, with a minus sign for a negative float.
\<close>

datatype float64 = Float64 (negative: bool) (mantissa: nat) (scale: nat)

definition round_half_even :: "nat \<Rightarrow> nat \<Rightarrow> nat" where
  "round_half_even a b =
     (let q = a div b; r = a mod b in
      if 2 * r < b then q
      else if b < 2 * r then q + 1
      else if even q then q else q + 1)"

function norm_shift :: "nat \<Rightarrow> nat \<Rightarrow> nat" where
  "norm_shift n k =
     (if n = 0 \<or> 100 * 2 ^ 52 \<le> n * 2 ^ k then k else norm_shift n (Suc k))"
  by pat_completeness auto

termination norm_shift
proof (relation "measure (\<lambda>(n, k). 59 - k)")
  show "wf (measure (\<lambda>(n, k). 59 - k))" by simp
next
  fix n k :: nat
  assume more: "\<not> (n = 0 \<or> 100 * 2 ^ 52 \<le> n * 2 ^ k)"
  have "k < 59"
  proof (rule ccontr)
    assume "\<not> k < 59"
    then obtain j where k: "k = 59 + j"
      using le_Suc_ex [of 59 k] by auto
    have "(100::nat) * 2 ^ 52 \<le> 2 ^ 59" by simp
    also have "\<dots> \<le> 2 ^ 59 * 2 ^ j" by simp
    also have "\<dots> = 2 ^ k" by (simp add: k power_add)
    also have "\<dots> \<le> n * 2 ^ k" using more by simp
    finally show False using more by simp
  qed
  then show "((n, Suc k), (n, k)) \<in> measure (\<lambda>(n, k). 59 - k)" by simp
qed

declare norm_shift.simps [simp del]

definition truediv_100 :: "int \<Rightarrow> float64" where
  "truediv_100 n =
     (let a = nat \<bar>n\<bar>; k = norm_shift a 0 in
      Float64 (n < 0) (round_half_even (a * 2 ^ k) 100) k)"

definition format_1f :: "float64 \<Rightarrow> string" where
  "format_1f x =
     (let q = round_half_even (mantissa x * 10) (2 ^ scale x) in
      (if negative x then ''-'' else '''') @ str_nat (q div 10) @ ''.'' @ str_nat (q mod 10))"

subsection \<open>The gear decoder\<close>

text \<open>
  \<^verbatim>\<open>decode_gears\<close>: the guard is \<^verbatim>\<open>len(data) >= 2\<close>, the reads are \<^verbatim>\<open>data[2]\<close> and
  \<^verbatim>\<open>data[3]\<close>, in that order.
\<close>

definition decode_gears :: "byte list \<Rightarrow> error + (string \<times> string)" where
  "decode_gears data =
     (if 2 \<le> length data then
        (case getitem data 2 of
           Inl e \<Rightarrow> Inl e
         | Inr d2 \<Rightarrow>
             (let front = 1 + uint d2 in
              case getitem data 3 of
                Inl e \<Rightarrow> Inl e
              | Inr d3 \<Rightarrow>
                  (let rear = 1 + uint d3 in
                   Inr (''Front Gear: '' @ str_int front, ''Rear Gear : '' @ str_int rear))))
      else Inr (''Bad Gear'', ''Data''))"

subsection \<open>The grade and lock decoder\<close>

text \<open>
  The globals \<^verbatim>\<open>current_lock_status\<close> and \<^verbatim>\<open>current_grade\<close>, both \<^verbatim>\<open>None\<close> when
  the module is loaded.
\<close>

record grade_lock_state =
  current_lock_status :: "bool option"
  current_grade :: "string option"

definition initial_state :: grade_lock_state where
  "initial_state = \<lparr>current_lock_status = None, current_grade = None\<rparr>"

text \<open>The expression \<^verbatim>\<open>(data[3] << 8 | data[2])\<close>, which both grade branches evaluate.\<close>

definition raw16 :: "byte list \<Rightarrow> error + int" where
  "raw16 data =
     (case getitem data 3 of
        Inl e \<Rightarrow> Inl e
      | Inr d3 \<Rightarrow>
          (case getitem data 2 of
             Inl e \<Rightarrow> Inl e
           | Inr d2 \<Rightarrow> Inr (push_bit 8 (uint d3) OR uint d2)))"

text \<open>
  The first \<^verbatim>\<open>if\<close> of \<^verbatim>\<open>calc_grade\<close>:
  \<^verbatim>\<open>len(data) >= 3 and data[0] == 0xfd and data[1] == 0x33\<close>, short-circuiting.
\<close>

definition lock_block :: "byte list \<Rightarrow> grade_lock_state \<Rightarrow> error + grade_lock_state" where
  "lock_block data st =
     (if 3 \<le> length data then
        (case getitem data 0 of
           Inl e \<Rightarrow> Inl e
         | Inr d0 \<Rightarrow>
             if d0 = 0xfd then
               (case getitem data 1 of
                  Inl e \<Rightarrow> Inl e
                | Inr d1 \<Rightarrow>
                    if d1 = 0x33 then
                      (case getitem data 2 of
                         Inl e \<Rightarrow> Inl e
                       | Inr d2 \<Rightarrow> Inr (st\<lparr>current_lock_status := Some (d2 = 0x01)\<rparr>))
                    else Inr st)
             else Inr st)
      else Inr st)"

text \<open>
  The second \<^verbatim>\<open>if\<close>: \<^verbatim>\<open>len(data) >= 4 and data[0] == 0xfd and data[1] == 0x34\<close>, then
  the split on \<^verbatim>\<open>data[3] < 0x80\<close>.
\<close>

definition grade_block :: "byte list \<Rightarrow> grade_lock_state \<Rightarrow> error + grade_lock_state" where
  "grade_block data st =
     (if 4 \<le> length data then
        (case getitem data 0 of
           Inl e \<Rightarrow> Inl e
         | Inr d0 \<Rightarrow>
             if d0 = 0xfd then
               (case getitem data 1 of
                  Inl e \<Rightarrow> Inl e
                | Inr d1 \<Rightarrow>
                    if d1 = 0x34 then
                      (case getitem data 3 of
                         Inl e \<Rightarrow> Inl e
                       | Inr d3 \<Rightarrow>
                           if d3 < 0x80 then
                             (case raw16 data of
                                Inl e \<Rightarrow> Inl e
                              | Inr raw \<Rightarrow>
                                  (let grade_value = truediv_100 raw in
                                   Inr (st\<lparr>current_grade :=
                                          Some (''+'' @ format_1f grade_value @ ''%'')\<rparr>)))
                           else
                             (case raw16 data of
                                Inl e \<Rightarrow> Inl e
                              | Inr raw \<Rightarrow>
                                  (let tmp16 = 0xffff - raw;
                                       grade_value = truediv_100 tmp16 in
                                   Inr (st\<lparr>current_grade :=
                                          Some (''-'' @ format_1f grade_value @ ''%'')\<rparr>))))
                    else Inr st)
             else Inr st)
      else Inr st)"

text \<open>The tail of \<^verbatim>\<open>calc_grade\<close>, which builds the returned label from the globals.\<close>

definition build_output :: "grade_lock_state \<Rightarrow> string option" where
  "build_output st =
     (case current_grade st of
        Some grade \<Rightarrow>
          (case current_lock_status st of
             Some locked \<Rightarrow>
               (let lock_text = (if locked then ''L'' else ''U'') in
                Some (grade @ '' ('' @ lock_text @ '')''))
           | None \<Rightarrow> Some grade)
      | None \<Rightarrow>
          (case current_lock_status st of
             Some locked \<Rightarrow> Some (if locked then ''L'' else ''U'')
           | None \<Rightarrow> None))"

text \<open>
  \<^verbatim>\<open>calc_grade\<close>: the result is the returned label or the exception raised, together
  with the globals as the call leaves them.
\<close>

definition calc_grade ::
  "byte list \<Rightarrow> grade_lock_state \<Rightarrow> (error + string option) \<times> grade_lock_state" where
  "calc_grade data st =
     (case lock_block data st of
        Inl e \<Rightarrow> (Inl e, st)
      | Inr st1 \<Rightarrow>
          (case grade_block data st1 of
             Inl e \<Rightarrow> (Inl e, st1)
           | Inr st2 \<Rightarrow> (Inr (build_output st2), st2)))"

text \<open>
  \<^verbatim>\<open>grade_notification_handler\<close> calls \<^verbatim>\<open>calc_grade\<close> once per notification; the globals
  carry over from one call to the next.
\<close>

fun calc_grade_seq :: "byte list list \<Rightarrow> grade_lock_state \<Rightarrow> grade_lock_state" where
  "calc_grade_seq [] st = st"
| "calc_grade_seq (data # rest) st = calc_grade_seq rest (snd (calc_grade data st))"

subsection \<open>The specification's vocabulary\<close>

text \<open>
  A payload carries the lock flag when it has the header \<^verbatim>\<open>0xFD 0x33\<close> and at least
  3 bytes, and carries a grade when it has the header \<^verbatim>\<open>0xFD 0x34\<close> and at least 4.
\<close>

definition carries_lock :: "byte list \<Rightarrow> bool" where
  "carries_lock data = (3 \<le> length data \<and> data ! 0 = 0xfd \<and> data ! 1 = 0x33)"

definition carries_grade :: "byte list \<Rightarrow> bool" where
  "carries_grade data = (4 \<le> length data \<and> data ! 0 = 0xfd \<and> data ! 1 = 0x34)"

text \<open>
  The composite label as the specification words it: grade and lock status both set,
  only the grade, only the lock status, neither.
\<close>

fun spec_compose :: "string option \<Rightarrow> bool option \<Rightarrow> string option" where
  "spec_compose (Some g) (Some l) = Some (g @ '' ('' @ (if l then ''L'' else ''U'') @ '')'')"
| "spec_compose (Some g) None = Some g"
| "spec_compose None (Some l) = Some (if l then ''L'' else ''U'')"
| "spec_compose None None = None"

definition spec_label :: "grade_lock_state \<Rightarrow> string option" where
  "spec_label st = spec_compose (current_grade st) (current_lock_status st)"

section \<open>Properties\<close>

subsection \<open>Unfolding the recursive primitives on concrete numbers\<close>

lemma str_nat_small: "n < 10 \<Longrightarrow> str_nat n = [digit_char n]"
  by (simp add: str_nat.simps)
lemma str_nat_large: "\<not> n < 10 \<Longrightarrow> str_nat n = str_nat (n div 10) @ [digit_char (n mod 10)]"
  by (subst str_nat.simps) simp
lemma norm_shift_stop: "n = 0 \<or> 100 * 2 ^ 52 \<le> n * 2 ^ k \<Longrightarrow> norm_shift n k = k"
  by (subst norm_shift.simps) simp
lemma norm_shift_step:
  "\<not> (n = 0 \<or> 100 * 2 ^ 52 \<le> n * 2 ^ k) \<Longrightarrow> norm_shift n k = norm_shift n (Suc k)"
  by (subst norm_shift.simps) simp
lemmas eval_simps = format_1f_def truediv_100_def norm_shift_stop norm_shift_step
  round_half_even_def str_nat_small str_nat_large str_int_def digit_char_def Let_def

subsection \<open>What each block of \<^verbatim>\<open>calc_grade\<close> computes\<close>

lemma lock_block_eq:
  "lock_block data st =
     Inr (if carries_lock data then st\<lparr>current_lock_status := Some (data ! 2 = 0x01)\<rparr> else st)"
  by (auto simp add: lock_block_def carries_lock_def getitem_def)

lemma raw16_eq:
  "4 \<le> length data \<Longrightarrow> raw16 data = Inr (push_bit 8 (uint (data ! 3)) OR uint (data ! 2))"
  by (simp add: raw16_def getitem_def)

lemma grade_block_other: "\<not> carries_grade data \<Longrightarrow> grade_block data st = Inr st"
  by (auto simp add: grade_block_def carries_grade_def getitem_def)

lemma grade_block_pos:
  "carries_grade data \<Longrightarrow> data ! 3 < 0x80 \<Longrightarrow>
   grade_block data st =
     Inr (st\<lparr>current_grade :=
            Some (''+'' @ format_1f (truediv_100 (push_bit 8 (uint (data ! 3)) OR uint (data ! 2)))
                  @ ''%'')\<rparr>)"
  by (auto simp add: grade_block_def carries_grade_def getitem_def raw16_eq)

lemma grade_block_neg:
  "carries_grade data \<Longrightarrow> \<not> data ! 3 < 0x80 \<Longrightarrow>
   grade_block data st =
     Inr (st\<lparr>current_grade :=
            Some (''-'' @ format_1f (truediv_100
                     (0xffff - (push_bit 8 (uint (data ! 3)) OR uint (data ! 2))))
                  @ ''%'')\<rparr>)"
  by (auto simp add: grade_block_def carries_grade_def getitem_def raw16_eq)

lemma grade_block_Inr: "\<exists>st'. grade_block data st = Inr st'"
  by (cases "carries_grade data"; cases "data ! 3 < 0x80")
     (simp_all add: grade_block_other grade_block_pos grade_block_neg)

lemma build_output_spec: "build_output st = spec_label st"
  by (simp add: build_output_def spec_label_def split: option.splits)

lemma calc_grade_eq:
  "grade_block data (if carries_lock data
                     then st\<lparr>current_lock_status := Some (data ! 2 = 0x01)\<rparr> else st) = Inr st2
   \<Longrightarrow> calc_grade data st = (Inr (build_output st2), st2)"
  by (simp add: calc_grade_def lock_block_eq)

lemma calc_grade_no_header:
  "\<not> carries_lock data \<Longrightarrow> \<not> carries_grade data \<Longrightarrow>
   calc_grade data st = (Inr (build_output st), st)"
  by (simp add: calc_grade_eq grade_block_other)

lemma carries_exclusive: "carries_lock data \<Longrightarrow> \<not> carries_grade data"
  by (simp add: carries_lock_def carries_grade_def)

lemma calc_grade_on_grade:
  assumes cg: "carries_grade data"
    and gb: "grade_block data st = Inr (st\<lparr>current_grade := Some g\<rparr>)"
  shows "calc_grade data st =
           (Inr (build_output (st\<lparr>current_grade := Some g\<rparr>)), st\<lparr>current_grade := Some g\<rparr>)"
proof -
  have nl: "\<not> carries_lock data"
    using cg carries_exclusive by blast
  show ?thesis
    by (rule calc_grade_eq) (simp only: nl if_False gb)
qed

lemma calc_grade_on_lock:
  assumes cl: "carries_lock data"
  shows "calc_grade data st =
           (Inr (build_output (st\<lparr>current_lock_status := Some (data ! 2 = 0x01)\<rparr>)),
            st\<lparr>current_lock_status := Some (data ! 2 = 0x01)\<rparr>)"
proof -
  have ng: "\<not> carries_grade data"
    using cl carries_exclusive by blast
  show ?thesis
    by (rule calc_grade_eq) (simp only: cl if_True grade_block_other [OF ng])
qed

lemma calc_grade_neg:
  assumes cg: "carries_grade data" and neg: "\<not> data ! 3 < 0x80"
    and g: "g = ''-'' @ format_1f (truediv_100
                 (0xffff - (push_bit 8 (uint (data ! 3)) OR uint (data ! 2)))) @ ''%''"
  shows "calc_grade data st =
           (Inr (build_output (st\<lparr>current_grade := Some g\<rparr>)), st\<lparr>current_grade := Some g\<rparr>)"
proof -
  have "grade_block data st = Inr (st\<lparr>current_grade := Some g\<rparr>)"
    unfolding g by (rule grade_block_neg [OF cg neg])
  then show ?thesis by (rule calc_grade_on_grade [OF cg])
qed

lemma calc_grade_pos:
  assumes cg: "carries_grade data" and pos: "data ! 3 < 0x80"
    and g: "g = ''+'' @ format_1f (truediv_100
                 (push_bit 8 (uint (data ! 3)) OR uint (data ! 2))) @ ''%''"
  shows "calc_grade data st =
           (Inr (build_output (st\<lparr>current_grade := Some g\<rparr>)), st\<lparr>current_grade := Some g\<rparr>)"
proof -
  have "grade_block data st = Inr (st\<lparr>current_grade := Some g\<rparr>)"
    unfolding g by (rule grade_block_pos [OF cg pos])
  then show ?thesis by (rule calc_grade_on_grade [OF cg])
qed

lemma calc_grade_state_cases:
  "(\<not> carries_lock data \<and> \<not> carries_grade data \<and> snd (calc_grade data st) = st)
   \<or> (carries_lock data \<and>
       snd (calc_grade data st) = st\<lparr>current_lock_status := Some (data ! 2 = 0x01)\<rparr>)
   \<or> (carries_grade data \<and> (\<exists>g. snd (calc_grade data st) = st\<lparr>current_grade := Some g\<rparr>))"
proof (cases "carries_lock data")
  case True
  then show ?thesis by (simp add: calc_grade_on_lock)
next
  case nl: False
  show ?thesis
  proof (cases "carries_grade data")
    case False
    with nl show ?thesis by (simp add: calc_grade_no_header)
  next
    case cg: True
    show ?thesis
    proof (cases "data ! 3 < 0x80")
      case True
      from calc_grade_pos [OF cg True refl, of st]
      have "\<exists>g. snd (calc_grade data st) = st\<lparr>current_grade := Some g\<rparr>"
        by (metis snd_conv)
      with cg show ?thesis by blast
    next
      case False
      from calc_grade_neg [OF cg False refl, of st]
      have "\<exists>g. snd (calc_grade data st) = st\<lparr>current_grade := Some g\<rparr>"
        by (metis snd_conv)
      with cg show ?thesis by blast
    qed
  qed
qed

lemma calc_grade_keeps_grade:
  "current_grade st \<noteq> None \<Longrightarrow> current_grade (snd (calc_grade data st)) \<noteq> None"
  using calc_grade_state_cases [of data st] by auto

lemma calc_grade_keeps_lock:
  "current_lock_status st \<noteq> None \<Longrightarrow> current_lock_status (snd (calc_grade data st)) \<noteq> None"
  using calc_grade_state_cases [of data st] by auto

lemma calc_grade_seq_append:
  "calc_grade_seq (ps @ qs) st = calc_grade_seq qs (calc_grade_seq ps st)"
  by (induction ps arbitrary: st) simp_all

lemma calc_grade_seq_keeps_grade:
  "current_grade st \<noteq> None \<Longrightarrow> current_grade (calc_grade_seq qs st) \<noteq> None"
proof (induction qs arbitrary: st)
  case Nil
  then show ?case by simp
next
  case (Cons data rest)
  from Cons.prems have "current_grade (snd (calc_grade data st)) \<noteq> None"
    by (rule calc_grade_keeps_grade)
  then have "current_grade (calc_grade_seq rest (snd (calc_grade data st))) \<noteq> None"
    by (rule Cons.IH)
  then show ?case by simp
qed

lemma calc_grade_seq_keeps_lock:
  "current_lock_status st \<noteq> None \<Longrightarrow> current_lock_status (calc_grade_seq qs st) \<noteq> None"
proof (induction qs arbitrary: st)
  case Nil
  then show ?case by simp
next
  case (Cons data rest)
  from Cons.prems have "current_lock_status (snd (calc_grade data st)) \<noteq> None"
    by (rule calc_grade_keeps_lock)
  then have "current_lock_status (calc_grade_seq rest (snd (calc_grade data st))) \<noteq> None"
    by (rule Cons.IH)
  then show ?case by simp
qed

subsection \<open>The float model on sample values\<close>

text \<open>
  The 16-bit value assembled from two bytes lies between 0 and \<^verbatim>\<open>0xFFFF\<close>, so neither
  it nor \<^verbatim>\<open>0xffff\<close> minus it is negative, and both are far below \<open>2^53\<close>.
\<close>

lemma raw_range:
  fixes d3 d2 :: byte
  shows "0 \<le> push_bit 8 (uint d3) OR uint d2" and "push_bit 8 (uint d3) OR uint d2 \<le> 0xffff"
proof -
  show "0 \<le> push_bit 8 (uint d3) OR uint d2"
    by simp
  have "uint d3 < 2 ^ 8"
    using uint_bounded [of d3] by simp
  then have hi: "push_bit 8 (uint d3) < 2 ^ 16"
    by (simp add: push_bit_eq_mult)
  have "uint d2 < 2 ^ 8"
    using uint_bounded [of d2] by simp
  then have lo: "uint d2 < 2 ^ 16"
    by simp
  have "push_bit 8 (uint d3) OR uint d2 < 2 ^ 16"
    using hi lo by (intro OR_upper) simp_all
  then show "push_bit 8 (uint d3) OR uint d2 \<le> 0xffff"
    by simp
qed

text \<open>
  Sample outputs of \<^verbatim>\<open>f"{n / 100.0:.1f}"\<close>, ties and near-ties included: \<^verbatim>\<open>0.25\<close> and
  \<^verbatim>\<open>0.75\<close> are exact floats and round to even, \<^verbatim>\<open>0.05\<close> is a float just above and
  \<^verbatim>\<open>0.15\<close> a float just below the decimal.
\<close>

lemma format_examples:
  "format_1f (truediv_100 0) = ''0.0''"
  "format_1f (truediv_100 5) = ''0.1''"
  "format_1f (truediv_100 15) = ''0.1''"
  "format_1f (truediv_100 25) = ''0.2''"
  "format_1f (truediv_100 75) = ''0.8''"
  "format_1f (truediv_100 995) = ''9.9''"
  "format_1f (truediv_100 32767) = ''327.7''"
  "format_1f (truediv_100 65535) = ''655.4''"
  by (simp_all add: eval_simps)

subsection \<open>Grade payloads\<close>

text \<open>
  C2. A payload of at least 4 bytes with header \<^verbatim>\<open>0xFD 0x34\<close> whose byte 3 is at least
  \<^verbatim>\<open>0x80\<close> stores as grade a minus sign, then \<^verbatim>\<open>(0xFFFF - ((data[3] << 8) | data[2])) / 100.0\<close>
  printed with one fractional digit, then a percent sign. With the lock status unlocked,
  the payload \<^verbatim>\<open>FD 34 00 FF\<close> returns that formula's output for \<^verbatim>\<open>0xFFFF - 0xFF00 = 255\<close>
  followed by \<^verbatim>\<open>(U)\<close>; the float \<^verbatim>\<open>255 / 100.0\<close> lies just below 2.55, so the label
  is \<^verbatim>\<open>-2.5% (U)\<close>.
\<close>

theorem calc_grade_negative_grade:
  "(4 \<le> length data \<and> data ! 0 = 0xfd \<and> data ! 1 = 0x34 \<and> 0x80 \<le> data ! 3 \<longrightarrow>
      current_grade (snd (calc_grade data st)) =
        Some (''-'' @ format_1f (truediv_100
                 (0xffff - (push_bit 8 (uint (data ! 3)) OR uint (data ! 2)))) @ ''%''))
   \<and> fst (calc_grade [0xfd, 0x34, 0x00, 0xff]
             \<lparr>current_lock_status = Some False, current_grade = prior\<rparr>)
       = Inr (Some (''-'' @ format_1f (truediv_100 (0xffff - 0xff00)) @ ''% (U)''))
   \<and> ''-'' @ format_1f (truediv_100 (0xffff - 0xff00)) @ ''% (U)'' = ''-2.5% (U)''"
proof (intro conjI impI)
  assume h: "4 \<le> length data \<and> data ! 0 = 0xfd \<and> data ! 1 = 0x34 \<and> 0x80 \<le> data ! 3"
  define g where "g = ''-'' @ format_1f (truediv_100
                 (0xffff - (push_bit 8 (uint (data ! 3)) OR uint (data ! 2)))) @ ''%''"
  from h have cg: "carries_grade data" and neg: "\<not> data ! 3 < 0x80"
    by (simp_all add: carries_grade_def not_less)
  have "current_grade (snd (calc_grade data st)) = Some g"
    by (simp add: calc_grade_neg [OF cg neg g_def])
  then show "current_grade (snd (calc_grade data st)) =
        Some (''-'' @ format_1f (truediv_100
                 (0xffff - (push_bit 8 (uint (data ! 3)) OR uint (data ! 2)))) @ ''%'')"
    unfolding g_def .
next
  show fmt: "''-'' @ format_1f (truediv_100 (0xffff - 0xff00)) @ ''% (U)'' = ''-2.5% (U)''"
    by (simp add: eval_simps)
next
  define st where "st = \<lparr>current_lock_status = Some False, current_grade = prior\<rparr>"
  define g where "g = ''-'' @ format_1f (truediv_100 (0xffff - 0xff00)) @ ''%''"
  have cg: "carries_grade [0xfd, 0x34, 0x00, 0xff]"
    and neg: "\<not> [0xfd, 0x34, 0x00, 0xff :: byte] ! 3 < 0x80"
    by (simp_all add: carries_grade_def)
  have raw: "(0xffff :: int) - (push_bit 8 (uint ([0xfd, 0x34, 0x00, 0xff :: byte] ! 3))
               OR uint ([0xfd, 0x34, 0x00, 0xff :: byte] ! 2)) = 0xffff - 0xff00"
    by simp
  have "calc_grade [0xfd, 0x34, 0x00, 0xff] st =
          (Inr (build_output (st\<lparr>current_grade := Some g\<rparr>)), st\<lparr>current_grade := Some g\<rparr>)"
    by (rule calc_grade_neg [OF cg neg]) (simp only: g_def raw)
  then have "fst (calc_grade [0xfd, 0x34, 0x00, 0xff] st) = Inr (Some (g @ '' (U)''))"
    by (simp add: build_output_def st_def)
  then show "fst (calc_grade [0xfd, 0x34, 0x00, 0xff]
             \<lparr>current_lock_status = Some False, current_grade = prior\<rparr>)
       = Inr (Some (''-'' @ format_1f (truediv_100 (0xffff - 0xff00)) @ ''% (U)''))"
    unfolding st_def g_def by simp
qed

theorem calc_grade_negative_grade_witness:
  "4 \<le> length [0xfd, 0x34, 0x9c, 0xff :: byte]
   \<and> [0xfd, 0x34, 0x9c, 0xff :: byte] ! 0 = 0xfd \<and> [0xfd, 0x34, 0x9c, 0xff :: byte] ! 1 = 0x34
   \<and> 0x80 \<le> [0xfd, 0x34, 0x9c, 0xff :: byte] ! 3
   \<and> current_grade (snd (calc_grade [0xfd, 0x34, 0x9c, 0xff] initial_state)) = Some ''-1.0%''"
  using calc_grade_negative_grade [of "[0xfd, 0x34, 0x9c, 0xff]" initial_state None]
  by (simp add: eval_simps)

text \<open>
  C5. A payload of at least 4 bytes with header \<^verbatim>\<open>0xFD 0x34\<close> whose byte 3 is below
  \<^verbatim>\<open>0x80\<close> stores as grade a plus sign, then \<^verbatim>\<open>((data[3] << 8) | data[2]) / 100.0\<close> printed
  with one fractional digit, then a percent sign. With the lock status locked, the
  payload \<^verbatim>\<open>FD 34 50 00\<close> returns \<^verbatim>\<open>+0.8% (L)\<close>.
\<close>

theorem calc_grade_positive_grade:
  "(4 \<le> length data \<and> data ! 0 = 0xfd \<and> data ! 1 = 0x34 \<and> data ! 3 < 0x80 \<longrightarrow>
      current_grade (snd (calc_grade data st)) =
        Some (''+'' @ format_1f (truediv_100
                 (push_bit 8 (uint (data ! 3)) OR uint (data ! 2))) @ ''%''))
   \<and> fst (calc_grade [0xfd, 0x34, 0x50, 0x00]
             \<lparr>current_lock_status = Some True, current_grade = prior\<rparr>)
       = Inr (Some ''+0.8% (L)'')"
proof (intro conjI impI)
  assume h: "4 \<le> length data \<and> data ! 0 = 0xfd \<and> data ! 1 = 0x34 \<and> data ! 3 < 0x80"
  define g where "g = ''+'' @ format_1f (truediv_100
                 (push_bit 8 (uint (data ! 3)) OR uint (data ! 2))) @ ''%''"
  from h have cg: "carries_grade data" and pos: "data ! 3 < 0x80"
    by (simp_all add: carries_grade_def)
  have "current_grade (snd (calc_grade data st)) = Some g"
    by (simp add: calc_grade_pos [OF cg pos g_def])
  then show "current_grade (snd (calc_grade data st)) =
        Some (''+'' @ format_1f (truediv_100
                 (push_bit 8 (uint (data ! 3)) OR uint (data ! 2))) @ ''%'')"
    unfolding g_def .
next
  define st where "st = \<lparr>current_lock_status = Some True, current_grade = prior\<rparr>"
  have cg: "carries_grade [0xfd, 0x34, 0x50, 0x00]"
    and pos: "[0xfd, 0x34, 0x50, 0x00 :: byte] ! 3 < 0x80"
    by (simp_all add: carries_grade_def)
  have raw: "push_bit 8 (uint ([0xfd, 0x34, 0x50, 0x00 :: byte] ! 3))
               OR uint ([0xfd, 0x34, 0x50, 0x00 :: byte] ! 2) = (80 :: int)"
    by simp
  have fmt: "''+0.8%'' = ''+'' @ format_1f (truediv_100 80) @ ''%''"
    by (simp add: eval_simps)
  have "calc_grade [0xfd, 0x34, 0x50, 0x00] st =
          (Inr (build_output (st\<lparr>current_grade := Some ''+0.8%''\<rparr>)),
           st\<lparr>current_grade := Some ''+0.8%''\<rparr>)"
    by (rule calc_grade_pos [OF cg pos]) (simp only: raw fmt)
  then show "fst (calc_grade [0xfd, 0x34, 0x50, 0x00]
             \<lparr>current_lock_status = Some True, current_grade = prior\<rparr>)
       = Inr (Some ''+0.8% (L)'')"
    by (simp add: build_output_def st_def)
qed

theorem calc_grade_positive_grade_witness:
  "4 \<le> length [0xfd, 0x34, 0xff, 0x7f :: byte]
   \<and> [0xfd, 0x34, 0xff, 0x7f :: byte] ! 0 = 0xfd \<and> [0xfd, 0x34, 0xff, 0x7f :: byte] ! 1 = 0x34
   \<and> [0xfd, 0x34, 0xff, 0x7f :: byte] ! 3 < 0x80
   \<and> current_grade (snd (calc_grade [0xfd, 0x34, 0xff, 0x7f] initial_state)) = Some ''+327.7%''"
  using calc_grade_positive_grade [of "[0xfd, 0x34, 0xff, 0x7f]" initial_state None]
  by (simp add: eval_simps)

subsection \<open>Lock payloads\<close>

text \<open>
  C6. A payload of at least 3 bytes with header \<^verbatim>\<open>0xFD 0x33\<close> sets the lock status to
  true exactly when byte 2 is \<^verbatim>\<open>0x01\<close>, to false for any other value, and leaves the
  grade alone. From the initial state the payload \<^verbatim>\<open>FD 33 01\<close> returns \<^verbatim>\<open>L\<close>.
\<close>

theorem calc_grade_lock_flag:
  "(3 \<le> length data \<and> data ! 0 = 0xfd \<and> data ! 1 = 0x33 \<longrightarrow>
      snd (calc_grade data st) = st\<lparr>current_lock_status := Some (data ! 2 = 0x01)\<rparr>)
   \<and> calc_grade [0xfd, 0x33, 0x01] initial_state
       = (Inr (Some ''L''), \<lparr>current_lock_status = Some True, current_grade = None\<rparr>)"
proof (intro conjI impI)
  assume "3 \<le> length data \<and> data ! 0 = 0xfd \<and> data ! 1 = 0x33"
  then have "carries_lock data"
    by (simp add: carries_lock_def)
  then show "snd (calc_grade data st) = st\<lparr>current_lock_status := Some (data ! 2 = 0x01)\<rparr>"
    by (simp add: calc_grade_on_lock)
next
  have "carries_lock [0xfd, 0x33, 0x01]"
    by (simp add: carries_lock_def)
  then show "calc_grade [0xfd, 0x33, 0x01] initial_state
       = (Inr (Some ''L''), \<lparr>current_lock_status = Some True, current_grade = None\<rparr>)"
    by (simp add: calc_grade_on_lock build_output_def initial_state_def)
qed

theorem calc_grade_lock_flag_witness:
  "3 \<le> length [0xfd, 0x33, 0x02, 0x07 :: byte]
   \<and> [0xfd, 0x33, 0x02, 0x07 :: byte] ! 0 = 0xfd \<and> [0xfd, 0x33, 0x02, 0x07 :: byte] ! 1 = 0x33
   \<and> snd (calc_grade [0xfd, 0x33, 0x02, 0x07]
             \<lparr>current_lock_status = Some True, current_grade = Some ''+0.8%''\<rparr>)
       = \<lparr>current_lock_status = Some False, current_grade = Some ''+0.8%''\<rparr>"
  using calc_grade_lock_flag [of "[0xfd, 0x33, 0x02, 0x07]"
      "\<lparr>current_lock_status = Some True, current_grade = Some ''+0.8%''\<rparr>"]
  by simp

subsection \<open>Payloads that carry neither field\<close>

text \<open>
  C8. A payload whose first two bytes are neither \<^verbatim>\<open>0xFD 0x33\<close> nor \<^verbatim>\<open>0xFD 0x34\<close>
  (a payload with fewer than two bytes included) leaves both globals as they were, raises
  nothing and returns the label of the unchanged state, which is nothing when neither
  field has been set. The payload \<^verbatim>\<open>00 00\<close> on the initial state is such a call.
\<close>

theorem calc_grade_unknown_header:
  "(\<not> (2 \<le> length data \<and> data ! 0 = 0xfd \<and> (data ! 1 = 0x33 \<or> data ! 1 = 0x34)) \<longrightarrow>
      calc_grade data st = (Inr (spec_label st), st))
   \<and> spec_label initial_state = None
   \<and> calc_grade [0x00, 0x00] initial_state = (Inr None, initial_state)"
proof (intro conjI impI)
  assume "\<not> (2 \<le> length data \<and> data ! 0 = 0xfd \<and> (data ! 1 = 0x33 \<or> data ! 1 = 0x34))"
  then have "\<not> carries_lock data" and "\<not> carries_grade data"
    by (auto simp add: carries_lock_def carries_grade_def)
  then show "calc_grade data st = (Inr (spec_label st), st)"
    by (simp add: calc_grade_no_header build_output_spec)
next
  show "spec_label initial_state = None"
    by (simp add: spec_label_def initial_state_def)
next
  have "\<not> carries_lock [0x00, 0x00]" and "\<not> carries_grade [0x00, 0x00]"
    by (simp_all add: carries_lock_def carries_grade_def)
  then show "calc_grade [0x00, 0x00] initial_state = (Inr None, initial_state)"
    by (simp add: calc_grade_no_header build_output_def initial_state_def)
qed

theorem calc_grade_unknown_header_witness:
  "\<not> (2 \<le> length [0xfd, 0x35, 0x01, 0x02 :: byte] \<and> [0xfd, 0x35, 0x01, 0x02 :: byte] ! 0 = 0xfd
       \<and> ([0xfd, 0x35, 0x01, 0x02 :: byte] ! 1 = 0x33 \<or> [0xfd, 0x35, 0x01, 0x02 :: byte] ! 1 = 0x34))
   \<and> calc_grade [0xfd, 0x35, 0x01, 0x02]
        \<lparr>current_lock_status = Some True, current_grade = Some ''+0.8%''\<rparr>
       = (Inr (Some ''+0.8% (L)''), \<lparr>current_lock_status = Some True, current_grade = Some ''+0.8%''\<rparr>)"
  using calc_grade_unknown_header [of "[0xfd, 0x35, 0x01, 0x02]"
      "\<lparr>current_lock_status = Some True, current_grade = Some ''+0.8%''\<rparr>"]
  by (simp add: spec_label_def)

text \<open>
  C10. A payload that starts with \<^verbatim>\<open>0xFD 0x33\<close> but has fewer than 3 bytes, or starts
  with \<^verbatim>\<open>0xFD 0x34\<close> but has fewer than 4, makes \<^verbatim>\<open>calc_grade\<close> read no byte out of
  range: the call raises nothing, leaves both globals as they were and returns the label
  of the prior state, which is nothing when both fields are unset.
\<close>

theorem calc_grade_short_header_payload:
  "(2 \<le> length data \<and> data ! 0 = 0xfd
      \<and> (data ! 1 = 0x33 \<and> length data < 3 \<or> data ! 1 = 0x34 \<and> length data < 4) \<longrightarrow>
      calc_grade data st = (Inr (spec_label st), st))
   \<and> spec_label initial_state = None"
proof (intro conjI impI)
  assume h: "2 \<le> length data \<and> data ! 0 = 0xfd
      \<and> (data ! 1 = 0x33 \<and> length data < 3 \<or> data ! 1 = 0x34 \<and> length data < 4)"
  have "(0x33 :: byte) \<noteq> 0x34" by simp
  with h have "\<not> carries_lock data" and "\<not> carries_grade data"
    by (auto simp add: carries_lock_def carries_grade_def)
  then show "calc_grade data st = (Inr (spec_label st), st)"
    by (simp add: calc_grade_no_header build_output_spec)
next
  show "spec_label initial_state = None"
    by (simp add: spec_label_def initial_state_def)
qed

theorem calc_grade_short_header_payload_witness:
  "2 \<le> length [0xfd, 0x34, 0x50 :: byte] \<and> [0xfd, 0x34, 0x50 :: byte] ! 0 = 0xfd
   \<and> [0xfd, 0x34, 0x50 :: byte] ! 1 = 0x34 \<and> length [0xfd, 0x34, 0x50 :: byte] < 4
   \<and> calc_grade [0xfd, 0x34, 0x50] \<lparr>current_lock_status = Some False, current_grade = None\<rparr>
       = (Inr (Some ''U''), \<lparr>current_lock_status = Some False, current_grade = None\<rparr>)
   \<and> 2 \<le> length [0xfd, 0x33 :: byte] \<and> [0xfd, 0x33 :: byte] ! 0 = 0xfd
   \<and> [0xfd, 0x33 :: byte] ! 1 = 0x33 \<and> length [0xfd, 0x33 :: byte] < 3
   \<and> calc_grade [0xfd, 0x33] initial_state = (Inr None, initial_state)"
  using calc_grade_short_header_payload [of "[0xfd, 0x34, 0x50]"
      "\<lparr>current_lock_status = Some False, current_grade = None\<rparr>"]
    calc_grade_short_header_payload [of "[0xfd, 0x33]" initial_state]
  by (simp add: spec_label_def)

subsection \<open>Fields are never cleared\<close>

lemma calc_grade_never_raises: "\<exists>label. fst (calc_grade data st) = Inr label"
proof -
  obtain st2 where "grade_block data (if carries_lock data
      then st\<lparr>current_lock_status := Some (data ! 2 = 0x01)\<rparr> else st) = Inr st2"
    using grade_block_Inr by blast
  then have "calc_grade data st = (Inr (build_output st2), st2)"
    by (rule calc_grade_eq)
  then show ?thesis by simp
qed

lemma calc_grade_lock_example:
  "calc_grade [0xfd, 0x33, 0x01] st =
     (Inr (build_output (st\<lparr>current_lock_status := Some True\<rparr>)),
      st\<lparr>current_lock_status := Some True\<rparr>)"
proof -
  have "carries_lock [0xfd, 0x33, 0x01]"
    by (simp add: carries_lock_def)
  then show ?thesis
    by (simp add: calc_grade_on_lock)
qed

lemma calc_grade_grade_example:
  "calc_grade [0xfd, 0x34, 0x50, 0x00] st =
     (Inr (build_output (st\<lparr>current_grade := Some ''+0.8%''\<rparr>)),
      st\<lparr>current_grade := Some ''+0.8%''\<rparr>)"
proof -
  have cg: "carries_grade [0xfd, 0x34, 0x50, 0x00]"
    and pos: "[0xfd, 0x34, 0x50, 0x00 :: byte] ! 3 < 0x80"
    by (simp_all add: carries_grade_def)
  have raw: "push_bit 8 (uint ([0xfd, 0x34, 0x50, 0x00 :: byte] ! 3))
               OR uint ([0xfd, 0x34, 0x50, 0x00 :: byte] ! 2) = (80 :: int)"
    by simp
  have fmt: "''+0.8%'' = ''+'' @ format_1f (truediv_100 80) @ ''%''"
    by (simp add: eval_simps)
  show ?thesis
    by (rule calc_grade_pos [OF cg pos]) (simp only: raw fmt)
qed

lemma calc_grade_noise_example:
  "calc_grade [0x00, 0x00] st = (Inr (build_output st), st)"
proof -
  have "\<not> carries_lock [0x00, 0x00]" and "\<not> carries_grade [0x00, 0x00]"
    by (simp_all add: carries_lock_def carries_grade_def)
  then show ?thesis
    by (rule calc_grade_no_header)
qed

text \<open>
  C7. Along any sequence of \<^verbatim>\<open>calc_grade\<close> calls from the initial state, a field that is
  set after some prefix of the calls is still set after any further calls; and a single
  call changes the grade only on a payload that carries a grade, the lock status only on
  a payload that carries the lock flag.
\<close>

theorem fields_never_cleared:
  "(current_grade (calc_grade_seq ps initial_state) \<noteq> None \<longrightarrow>
      current_grade (calc_grade_seq (ps @ qs) initial_state) \<noteq> None)
   \<and> (current_lock_status (calc_grade_seq ps initial_state) \<noteq> None \<longrightarrow>
      current_lock_status (calc_grade_seq (ps @ qs) initial_state) \<noteq> None)
   \<and> (current_grade (snd (calc_grade data st)) \<noteq> current_grade st \<longrightarrow> carries_grade data)
   \<and> (current_lock_status (snd (calc_grade data st)) \<noteq> current_lock_status st \<longrightarrow>
      carries_lock data)"
proof (intro conjI impI)
  assume "current_grade (calc_grade_seq ps initial_state) \<noteq> None"
  then have "current_grade (calc_grade_seq qs (calc_grade_seq ps initial_state)) \<noteq> None"
    by (rule calc_grade_seq_keeps_grade)
  then show "current_grade (calc_grade_seq (ps @ qs) initial_state) \<noteq> None"
    by (simp add: calc_grade_seq_append)
next
  assume "current_lock_status (calc_grade_seq ps initial_state) \<noteq> None"
  then have "current_lock_status (calc_grade_seq qs (calc_grade_seq ps initial_state)) \<noteq> None"
    by (rule calc_grade_seq_keeps_lock)
  then show "current_lock_status (calc_grade_seq (ps @ qs) initial_state) \<noteq> None"
    by (simp add: calc_grade_seq_append)
next
  assume "current_grade (snd (calc_grade data st)) \<noteq> current_grade st"
  then show "carries_grade data"
    using calc_grade_state_cases [of data st] by auto
next
  assume "current_lock_status (snd (calc_grade data st)) \<noteq> current_lock_status st"
  then show "carries_lock data"
    using calc_grade_state_cases [of data st] by auto
qed

theorem fields_never_cleared_witness:
  "current_grade (calc_grade_seq [[0xfd, 0x34, 0x50, 0x00], [0xfd, 0x33, 0x01]] initial_state)
     \<noteq> None
   \<and> current_grade (calc_grade_seq ([[0xfd, 0x34, 0x50, 0x00], [0xfd, 0x33, 0x01]]
         @ [[0x00, 0x00], [0xfd, 0x33, 0x01]]) initial_state) \<noteq> None
   \<and> current_lock_status
       (calc_grade_seq [[0xfd, 0x34, 0x50, 0x00], [0xfd, 0x33, 0x01]] initial_state) \<noteq> None
   \<and> current_lock_status (calc_grade_seq ([[0xfd, 0x34, 0x50, 0x00], [0xfd, 0x33, 0x01]]
         @ [[0x00, 0x00], [0xfd, 0x33, 0x01]]) initial_state) \<noteq> None
   \<and> current_grade (snd (calc_grade [0xfd, 0x34, 0x50, 0x00] initial_state))
       \<noteq> current_grade initial_state
   \<and> carries_grade [0xfd, 0x34, 0x50, 0x00]"
proof -
  have set_grade: "current_grade
      (calc_grade_seq [[0xfd, 0x34, 0x50, 0x00], [0xfd, 0x33, 0x01]] initial_state) \<noteq> None"
    by (simp add: calc_grade_grade_example calc_grade_lock_example)
  have set_lock: "current_lock_status
      (calc_grade_seq [[0xfd, 0x34, 0x50, 0x00], [0xfd, 0x33, 0x01]] initial_state) \<noteq> None"
    by (simp add: calc_grade_grade_example calc_grade_lock_example)
  have changed: "current_grade (snd (calc_grade [0xfd, 0x34, 0x50, 0x00] initial_state))
       \<noteq> current_grade initial_state"
    by (simp add: calc_grade_grade_example initial_state_def)
  show ?thesis
    using set_grade set_lock changed
      fields_never_cleared [of "[[0xfd, 0x34, 0x50, 0x00], [0xfd, 0x33, 0x01]]"
        "[[0x00, 0x00], [0xfd, 0x33, 0x01]]" "[0xfd, 0x34, 0x50, 0x00]" initial_state]
    by blast
qed

subsection \<open>The gear decoder\<close>

text \<open>
  C9. On a payload of fewer than 2 bytes, the empty one included, \<^verbatim>\<open>decode_gears\<close>
  returns the pair \<^verbatim>\<open>("Bad Gear", "Data")\<close> and raises nothing.
\<close>

theorem decode_gears_short_payload:
  "length data < 2 \<Longrightarrow> decode_gears data = Inr (''Bad Gear'', ''Data'')"
  by (simp add: decode_gears_def)

theorem decode_gears_short_payload_witness:
  "length ([] :: byte list) < 2 \<and> decode_gears [] = Inr (''Bad Gear'', ''Data'')
   \<and> length [0x2a :: byte] < 2 \<and> decode_gears [0x2a] = Inr (''Bad Gear'', ''Data'')"
  using decode_gears_short_payload [of "[]"] decode_gears_short_payload [of "[0x2a]"]
  by simp

text \<open>
  C4. On a payload of at least 4 bytes \<^verbatim>\<open>decode_gears\<close> returns
  \<^verbatim>\<open>"Front Gear: "\<close> followed by \<^verbatim>\<open>1 + data[2]\<close> and \<^verbatim>\<open>"Rear Gear : "\<close> followed by
  \<^verbatim>\<open>1 + data[3]\<close>, both in decimal; the payload \<^verbatim>\<open>00 00 00 05\<close> gives
  \<^verbatim>\<open>("Front Gear: 1", "Rear Gear : 6")\<close>.
\<close>

theorem decode_gears_labels:
  "(4 \<le> length data \<longrightarrow>
      decode_gears data =
        Inr (''Front Gear: '' @ str_int (1 + uint (data ! 2)),
             ''Rear Gear : '' @ str_int (1 + uint (data ! 3))))
   \<and> decode_gears [0, 0, 0, 5] = Inr (''Front Gear: 1'', ''Rear Gear : 6'')"
proof (intro conjI impI)
  assume "4 \<le> length data"
  then show "decode_gears data =
        Inr (''Front Gear: '' @ str_int (1 + uint (data ! 2)),
             ''Rear Gear : '' @ str_int (1 + uint (data ! 3)))"
    by (simp add: decode_gears_def getitem_def)
next
  show "decode_gears [0, 0, 0, 5] = Inr (''Front Gear: 1'', ''Rear Gear : 6'')"
    by (simp add: decode_gears_def getitem_def eval_simps)
qed

theorem decode_gears_labels_witness:
  "4 \<le> length [0x07, 0x01, 0xff, 0x09, 0x00 :: byte]
   \<and> decode_gears [0x07, 0x01, 0xff, 0x09, 0x00] = Inr (''Front Gear: 256'', ''Rear Gear : 10'')"
  using decode_gears_labels [of "[0x07, 0x01, 0xff, 0x09, 0x00]"]
  by (simp add: eval_simps)

text \<open>
  C3. On a payload of exactly 2 bytes the guard \<^verbatim>\<open>len(data) >= 2\<close> lets the call through
  to the read of \<^verbatim>\<open>data[2]\<close>, which is out of range: \<^verbatim>\<open>decode_gears\<close> raises IndexError
  and does not return the placeholder pair.
\<close>

theorem decode_gears_two_bytes_raises:
  "decode_gears [b0, b1] = Inl IndexError"
  by (simp add: decode_gears_def getitem_def)

subsection \<open>The returned label\<close>

text \<open>
  C1. Whatever the payload, \<^verbatim>\<open>calc_grade\<close> returns (it does not raise), and what it
  returns is composed from both persisted fields as the call leaves them, not only from
  the field the payload updates: the grade followed by \<^verbatim>\<open>(L)\<close> or \<^verbatim>\<open>(U)\<close> when both
  fields are set, the grade alone when only it is set, \<^verbatim>\<open>L\<close> or \<^verbatim>\<open>U\<close> when only the
  lock status is set, and nothing when neither is. A field the payload does not carry
  keeps the value it had before the call, so a lock payload is labelled with the prior
  grade and the new flag, a grade payload with the new grade and the prior lock status,
  and any other payload with the prior grade and the prior lock status, the state
  being left as it was.
\<close>

theorem calc_grade_label_from_full_state:
  "fst (calc_grade data st) = Inr (spec_label (snd (calc_grade data st)))
   \<and> (\<not> carries_grade data \<longrightarrow>
        current_grade (snd (calc_grade data st)) = current_grade st)
   \<and> (\<not> carries_lock data \<longrightarrow>
        current_lock_status (snd (calc_grade data st)) = current_lock_status st)
   \<and> (carries_lock data \<longrightarrow>
        fst (calc_grade data st)
          = Inr (spec_compose (current_grade st) (Some (data ! 2 = 0x01))))
   \<and> (carries_grade data \<longrightarrow>
        current_grade (snd (calc_grade data st)) \<noteq> None
        \<and> fst (calc_grade data st)
          = Inr (spec_compose (current_grade (snd (calc_grade data st)))
                   (current_lock_status st)))
   \<and> (\<not> carries_lock data \<and> \<not> carries_grade data \<longrightarrow>
        calc_grade data st
          = (Inr (spec_compose (current_grade st) (current_lock_status st)), st))"
proof -
  have label: "fst (calc_grade data st) = Inr (spec_label (snd (calc_grade data st)))"
  proof -
    obtain st2 where "grade_block data (if carries_lock data
        then st\<lparr>current_lock_status := Some (data ! 2 = 0x01)\<rparr> else st) = Inr st2"
      using grade_block_Inr by blast
    then show ?thesis by (simp add: calc_grade_eq build_output_spec)
  qed
  have keep_grade: "current_grade (snd (calc_grade data st)) = current_grade st"
    if "\<not> carries_grade data"
    using that calc_grade_state_cases [of data st] by auto
  have keep_lock: "current_lock_status (snd (calc_grade data st)) = current_lock_status st"
    if "\<not> carries_lock data"
    using that calc_grade_state_cases [of data st] by auto
  have on_lock: "fst (calc_grade data st)
          = Inr (spec_compose (current_grade st) (Some (data ! 2 = 0x01)))"
    if "carries_lock data"
    using that by (simp add: calc_grade_on_lock build_output_spec spec_label_def)
  have on_grade: "current_grade (snd (calc_grade data st)) \<noteq> None
        \<and> fst (calc_grade data st)
          = Inr (spec_compose (current_grade (snd (calc_grade data st)))
                   (current_lock_status st))"
    if cg: "carries_grade data"
  proof -
    have nl: "\<not> carries_lock data"
      using cg carries_exclusive by blast
    from cg nl calc_grade_state_cases [of data st]
    obtain g where post: "snd (calc_grade data st) = st\<lparr>current_grade := Some g\<rparr>"
      by auto
    have "fst (calc_grade data st) = Inr (spec_label (st\<lparr>current_grade := Some g\<rparr>))"
      using label post by simp
    then show ?thesis
      using post by (simp add: spec_label_def)
  qed
  have neither: "calc_grade data st
          = (Inr (spec_compose (current_grade st) (current_lock_status st)), st)"
    if "\<not> carries_lock data \<and> \<not> carries_grade data"
    using that by (simp add: calc_grade_no_header build_output_spec spec_label_def)
  show ?thesis
    using label keep_grade keep_lock on_lock on_grade neither by blast
qed

theorem calc_grade_label_from_full_state_witness:
  "\<not> carries_grade [0xfd, 0x33, 0x01] \<and> carries_lock [0xfd, 0x33, 0x01]
   \<and> calc_grade [0xfd, 0x33, 0x01]
        \<lparr>current_lock_status = Some False, current_grade = Some ''+0.8%''\<rparr>
       = (Inr (Some ''+0.8% (L)''),
          \<lparr>current_lock_status = Some True, current_grade = Some ''+0.8%''\<rparr>)
   \<and> \<not> carries_lock [0xfd, 0x34, 0x50, 0x00] \<and> carries_grade [0xfd, 0x34, 0x50, 0x00]
   \<and> calc_grade [0xfd, 0x34, 0x50, 0x00]
        \<lparr>current_lock_status = Some True, current_grade = Some ''-2.5%''\<rparr>
       = (Inr (Some ''+0.8% (L)''),
          \<lparr>current_lock_status = Some True, current_grade = Some ''+0.8%''\<rparr>)
   \<and> \<not> carries_lock [0x00, 0x00] \<and> \<not> carries_grade [0x00, 0x00]
   \<and> calc_grade [0x00, 0x00]
        \<lparr>current_lock_status = Some False, current_grade = Some ''-2.5%''\<rparr>
       = (Inr (Some ''-2.5% (U)''),
          \<lparr>current_lock_status = Some False, current_grade = Some ''-2.5%''\<rparr>)"
proof -
  define s1 where "s1 = \<lparr>current_lock_status = Some False, current_grade = Some ''+0.8%''\<rparr>"
  define s2 where "s2 = \<lparr>current_lock_status = Some True, current_grade = Some ''-2.5%''\<rparr>"
  define s3 where "s3 = \<lparr>current_lock_status = Some False, current_grade = Some ''-2.5%''\<rparr>"
  have l1: "carries_lock [0xfd, 0x33, 0x01]" and g1: "\<not> carries_grade [0xfd, 0x33, 0x01]"
    by (simp_all add: carries_lock_def carries_grade_def)
  have l2: "\<not> carries_lock [0xfd, 0x34, 0x50, 0x00]"
    and g2: "carries_grade [0xfd, 0x34, 0x50, 0x00]"
    by (simp_all add: carries_lock_def carries_grade_def)
  have l3: "\<not> carries_lock [0x00, 0x00]" and g3: "\<not> carries_grade [0x00, 0x00]"
    by (simp_all add: carries_lock_def carries_grade_def)
  have grade2: "current_grade (snd (calc_grade [0xfd, 0x34, 0x50, 0x00] s2)) = Some ''+0.8%''"
    by (simp add: calc_grade_grade_example)
  have r1: "calc_grade [0xfd, 0x33, 0x01] s1
       = (Inr (Some ''+0.8% (L)''),
          \<lparr>current_lock_status = Some True, current_grade = Some ''+0.8%''\<rparr>)"
  proof (rule prod_eqI)
    show "fst (calc_grade [0xfd, 0x33, 0x01] s1)
        = fst (Inr (Some ''+0.8% (L)'') :: error + string option,
            \<lparr>current_lock_status = Some True, current_grade = Some ''+0.8%''\<rparr>)"
    proof -
      from calc_grade_label_from_full_state [of "[0xfd, 0x33, 0x01]" s1] l1
      have "fst (calc_grade [0xfd, 0x33, 0x01] s1)
          = Inr (spec_compose (current_grade s1) (Some ([0xfd, 0x33, 0x01 :: byte] ! 2 = 0x01)))"
        by blast
      then show ?thesis
        by (simp add: s1_def)
    qed
    show "snd (calc_grade [0xfd, 0x33, 0x01] s1)
        = snd (Inr (Some ''+0.8% (L)'') :: error + string option,
            \<lparr>current_lock_status = Some True, current_grade = Some ''+0.8%''\<rparr>)"
      by (simp add: calc_grade_lock_example s1_def)
  qed
  have r2: "calc_grade [0xfd, 0x34, 0x50, 0x00] s2
       = (Inr (Some ''+0.8% (L)''),
          \<lparr>current_lock_status = Some True, current_grade = Some ''+0.8%''\<rparr>)"
  proof (rule prod_eqI)
    show "fst (calc_grade [0xfd, 0x34, 0x50, 0x00] s2)
        = fst (Inr (Some ''+0.8% (L)'') :: error + string option,
            \<lparr>current_lock_status = Some True, current_grade = Some ''+0.8%''\<rparr>)"
    proof -
      from calc_grade_label_from_full_state [of "[0xfd, 0x34, 0x50, 0x00]" s2] g2
      have "fst (calc_grade [0xfd, 0x34, 0x50, 0x00] s2)
          = Inr (spec_compose (current_grade (snd (calc_grade [0xfd, 0x34, 0x50, 0x00] s2)))
                   (current_lock_status s2))"
        by blast
      then have "fst (calc_grade [0xfd, 0x34, 0x50, 0x00] s2)
          = Inr (spec_compose (Some ''+0.8%'') (current_lock_status s2))"
        by (simp only: grade2)
      then show ?thesis
        by (simp add: s2_def)
    qed
    show "snd (calc_grade [0xfd, 0x34, 0x50, 0x00] s2)
        = snd (Inr (Some ''+0.8% (L)'') :: error + string option,
            \<lparr>current_lock_status = Some True, current_grade = Some ''+0.8%''\<rparr>)"
      by (simp add: calc_grade_grade_example s2_def)
  qed
  have r3: "calc_grade [0x00, 0x00] s3 = (Inr (Some ''-2.5% (U)''), s3)"
  proof -
    from calc_grade_label_from_full_state [of "[0x00, 0x00]" s3] l3 g3
    have "calc_grade [0x00, 0x00] s3
        = (Inr (spec_compose (current_grade s3) (current_lock_status s3)), s3)"
      by blast
    then show ?thesis
      by (simp add: s3_def)
  qed
  show ?thesis
    using l1 g1 l2 g2 l3 g3 r1 r2 r3 unfolding s1_def s2_def s3_def by blast
qed

end
